theory Spec2Isabelle
  imports Complex_Main "HOL-Library.Multiset" "HOL-Library.Log_Nat"
begin

section \<open>Data model (NetworkAnalyzer.tsx)\<close>

text \<open>
  The numbers of a record are finite and are modelled by the rationals they denote: every
  finite double is a rational, and comparisons of finite doubles agree with comparisons
  of those rationals. The speed test, which makes the numbers, computes in double
  precision (see the section on JavaScript numbers); the reporting views add, average and
  compare the stored numbers exactly. \<open>ping\<close>, \<open>jitter\<close> and \<open>timestamp\<close> are
  integers: the only producer of records (\<open>measurePing\<close>, \<open>Date.now()\<close>) yields
  integral values for them.
\<close>

datatype quality = Excellent | Good | Fair | Poor

fun quality_label :: "quality \<Rightarrow> string" where
  "quality_label Excellent = ''excellent''"
| "quality_label Good = ''good''"
| "quality_label Fair = ''fair''"
| "quality_label Poor = ''poor''"

record NetworkData =
  download :: rat
  upload :: rat
  ping :: int
  jitter :: int
  packetLoss :: rat
  timestamp :: int
  quality :: quality

record NetworkInfo =
  publicIp :: string
  localIp :: string
  hostname :: string
  os :: string
  isp :: string
  connectionType :: string
  location :: string

subsection \<open>Quality classifier\<close>

definition getNetworkQuality :: "rat \<Rightarrow> rat \<Rightarrow> quality" where
  "getNetworkQuality dl pg =
     (if dl \<ge> 100 \<and> pg \<le> 20 then Excellent
      else if dl \<ge> 50 \<and> pg \<le> 50 then Good
      else if dl \<ge> 25 \<and> pg \<le> 100 then Fair
      else Poor)"

subsection \<open>Test record store: the state of the NetworkAnalyzer component\<close>

text \<open>
  The component owns three state cells. \<open>setTestHistory\<close> is called in
  \<open>handleTestComplete\<close> only; \<open>setIsTestRunning\<close> is handed to the speed test;
  \<open>setNetworkInfo\<close> is called by \<open>fetchNetworkInfo\<close>.
\<close>

definition handleTestComplete :: "NetworkData \<Rightarrow> NetworkData list \<Rightarrow> NetworkData list" where
  "handleTestComplete results prev = results # take 99 prev"

record analyzer_state =
  testHistory :: "NetworkData list"
  isTestRunning :: bool
  networkInfo :: "NetworkInfo option"

datatype analyzer_action =
    TestComplete NetworkData
  | SetIsRunning bool
  | SetNetworkInfo NetworkInfo

fun analyzer_step :: "analyzer_action \<Rightarrow> analyzer_state \<Rightarrow> analyzer_state" where
  "analyzer_step (TestComplete r) s = s\<lparr>testHistory := handleTestComplete r (testHistory s)\<rparr>"
| "analyzer_step (SetIsRunning b) s = s\<lparr>isTestRunning := b\<rparr>"
| "analyzer_step (SetNetworkInfo i) s = s\<lparr>networkInfo := Some i\<rparr>"

definition initial_analyzer :: analyzer_state where
  "initial_analyzer = \<lparr>testHistory = [], isTestRunning = False, networkInfo = None\<rparr>"

definition append_all :: "NetworkData list \<Rightarrow> analyzer_state \<Rightarrow> analyzer_state" where
  "append_all rs s = foldl (\<lambda>st r. analyzer_step (TestComplete r) st) s rs"

section \<open>JavaScript numbers in the measurements\<close>

text \<open>
  The speed test computes with IEEE 754 doubles: every operation is carried out exactly
  and then rounded to the nearest double, a tie going to the even one; a result beyond the
  largest double is an infinity, and undefined operations give \<open>NaN\<close>. A finite double
  is the rational it denotes. The two zeros are not distinguished: a zero is \<open>+0\<close>.
\<close>

datatype js_number = Num rat | PosInfinity | NegInfinity | NaN

definition pow2 :: "int \<Rightarrow> rat" where
  "pow2 k = (if 0 \<le> k then 2 ^ nat k else 1 / 2 ^ nat (- k))"

text \<open>The binary exponent of a non-zero rational: \<open>2^e \<le> |x| < 2^(e+1)\<close>.\<close>

definition expo_of :: "int \<Rightarrow> rat \<Rightarrow> int" where
  "expo_of k a = (if pow2 k \<le> a then k else k - 1)"

definition expo :: "rat \<Rightarrow> int" where
  "expo x = expo_of (bitlen (fst (quotient_of \<bar>x\<bar>)) - bitlen (snd (quotient_of \<bar>x\<bar>))) \<bar>x\<bar>"

text \<open>
  The spacing of the doubles around \<open>x\<close>: 52 binary digits below its exponent, and
  not below the exponent of the smallest normal double.
\<close>

definition ulp :: "rat \<Rightarrow> rat" where
  "ulp x = pow2 (max (expo x) (- 1022) - 52)"

definition nearest_even :: "int \<Rightarrow> rat \<Rightarrow> int" where
  "nearest_even f d =
     (if d < 1 / 2 then f else if 1 / 2 < d then f + 1 else if even f then f else f + 1)"

definition round_half_even :: "rat \<Rightarrow> int" where
  "round_half_even x = nearest_even \<lfloor>x\<rfloor> (x - of_int \<lfloor>x\<rfloor>)"

definition round_to :: "rat \<Rightarrow> rat \<Rightarrow> rat" where
  "round_to u x = of_int (round_half_even (x / u)) * u"

definition fl_round :: "rat \<Rightarrow> rat" where
  "fl_round x = (if x = 0 then 0 else round_to (ulp x) x)"

definition two_1024 :: rat where
  "two_1024 = 2 ^ 1024"

definition overflow :: "rat \<Rightarrow> js_number" where
  "overflow y =
     (if two_1024 \<le> \<bar>y\<bar> then (if 0 < y then PosInfinity else NegInfinity) else Num y)"

definition fl :: "rat \<Rightarrow> js_number" where
  "fl x = overflow (fl_round x)"

fun js_neg :: "js_number \<Rightarrow> js_number" where
  "js_neg (Num a) = Num (- a)"
| "js_neg PosInfinity = NegInfinity"
| "js_neg NegInfinity = PosInfinity"
| "js_neg NaN = NaN"

fun js_add :: "js_number \<Rightarrow> js_number \<Rightarrow> js_number" where
  "js_add (Num a) (Num b) = fl (a + b)"
| "js_add NaN y = NaN"
| "js_add x NaN = NaN"
| "js_add PosInfinity NegInfinity = NaN"
| "js_add NegInfinity PosInfinity = NaN"
| "js_add PosInfinity y = PosInfinity"
| "js_add x PosInfinity = PosInfinity"
| "js_add NegInfinity y = NegInfinity"
| "js_add x NegInfinity = NegInfinity"

definition js_sub :: "js_number \<Rightarrow> js_number \<Rightarrow> js_number" where
  "js_sub x y = js_add x (js_neg y)"

definition signed_infinity :: "bool \<Rightarrow> js_number" where
  "signed_infinity positive = (if positive then PosInfinity else NegInfinity)"

fun js_mul :: "js_number \<Rightarrow> js_number \<Rightarrow> js_number" where
  "js_mul (Num a) (Num b) = fl (a * b)"
| "js_mul NaN y = NaN"
| "js_mul x NaN = NaN"
| "js_mul (Num a) PosInfinity = (if a = 0 then NaN else signed_infinity (0 < a))"
| "js_mul (Num a) NegInfinity = (if a = 0 then NaN else signed_infinity (a < 0))"
| "js_mul PosInfinity (Num b) = (if b = 0 then NaN else signed_infinity (0 < b))"
| "js_mul NegInfinity (Num b) = (if b = 0 then NaN else signed_infinity (b < 0))"
| "js_mul PosInfinity PosInfinity = PosInfinity"
| "js_mul PosInfinity NegInfinity = NegInfinity"
| "js_mul NegInfinity PosInfinity = NegInfinity"
| "js_mul NegInfinity NegInfinity = PosInfinity"

fun js_div :: "js_number \<Rightarrow> js_number \<Rightarrow> js_number" where
  "js_div (Num a) (Num b) =
     (if b = 0 then (if a = 0 then NaN else signed_infinity (0 < a)) else fl (a / b))"
| "js_div NaN y = NaN"
| "js_div x NaN = NaN"
| "js_div (Num a) PosInfinity = Num 0"
| "js_div (Num a) NegInfinity = Num 0"
| "js_div PosInfinity (Num b) = signed_infinity (0 \<le> b)"
| "js_div NegInfinity (Num b) = signed_infinity (b < 0)"
| "js_div PosInfinity PosInfinity = NaN"
| "js_div PosInfinity NegInfinity = NaN"
| "js_div NegInfinity PosInfinity = NaN"
| "js_div NegInfinity NegInfinity = NaN"

text \<open>\<open>Math.round\<close>: the nearest integer, a tie going up.\<close>

definition js_round :: "rat \<Rightarrow> int" where
  "js_round x = \<lfloor>x + 1 / 2\<rfloor>"

fun math_round :: "js_number \<Rightarrow> js_number" where
  "math_round (Num x) = Num (of_int (js_round x))"
| "math_round PosInfinity = PosInfinity"
| "math_round NegInfinity = NegInfinity"
| "math_round NaN = NaN"

text \<open>
  \<open>Math.max(...xs)\<close> and \<open>Math.min(...xs)\<close> on doubles: \<open>NaN\<close> if an argument is
  \<open>NaN\<close>, \<open>-Infinity\<close> and \<open>Infinity\<close> for no argument.
\<close>

fun larger :: "js_number \<Rightarrow> js_number \<Rightarrow> js_number" where
  "larger (Num a) (Num b) = Num (max a b)"
| "larger NaN y = NaN"
| "larger x NaN = NaN"
| "larger PosInfinity y = PosInfinity"
| "larger x PosInfinity = PosInfinity"
| "larger NegInfinity y = y"
| "larger x NegInfinity = x"

fun smaller :: "js_number \<Rightarrow> js_number \<Rightarrow> js_number" where
  "smaller (Num a) (Num b) = Num (min a b)"
| "smaller NaN y = NaN"
| "smaller x NaN = NaN"
| "smaller NegInfinity y = NegInfinity"
| "smaller x NegInfinity = NegInfinity"
| "smaller PosInfinity y = y"
| "smaller x PosInfinity = x"

definition number_max :: "js_number list \<Rightarrow> js_number" where
  "number_max xs = foldl larger NegInfinity xs"

definition number_min :: "js_number list \<Rightarrow> js_number" where
  "number_min xs = foldl smaller PosInfinity xs"

text \<open>
  A record holds finite numbers (see the data model): a measurement enters it through
  these two readers. A measurement that is not finite has no place in a record, and a
  run that makes one leaves the model.
\<close>

fun as_finite :: "js_number \<Rightarrow> rat option" where
  "as_finite (Num x) = Some x"
| "as_finite PosInfinity = None"
| "as_finite NegInfinity = None"
| "as_finite NaN = None"

fun as_integer :: "js_number \<Rightarrow> int option" where
  "as_integer (Num x) = (if x = of_int \<lfloor>x\<rfloor> then Some \<lfloor>x\<rfloor> else None)"
| "as_integer PosInfinity = None"
| "as_integer NegInfinity = None"
| "as_integer NaN = None"

section \<open>JavaScript library functions used by the components\<close>

text \<open>
  Strings are lists of characters. \<open>toLowerCase\<close> is modelled on ASCII letters;
  \<open>localeCompare\<close> is modelled by code-point order, which is what every locale gives
  on the four lower-case ASCII quality labels it is applied to.
\<close>

definition toLowerCase :: "string \<Rightarrow> string" where
  "toLowerCase s =
     map (\<lambda>c. if (of_char (CHR ''A'') :: nat) \<le> of_char c \<and> (of_char c :: nat) \<le> of_char (CHR ''Z'')
              then char_of (of_char c + (32::nat)) else c) s"

fun starts_with :: "string \<Rightarrow> string \<Rightarrow> bool" where
  "starts_with hay [] = True"
| "starts_with [] (n # ns) = False"
| "starts_with (h # hs) (n # ns) = (h = n \<and> starts_with hs ns)"

fun js_includes :: "string \<Rightarrow> string \<Rightarrow> bool" where
  "js_includes [] needle = (needle = [])"
| "js_includes (h # hs) needle = (starts_with (h # hs) needle \<or> js_includes hs needle)"

fun localeCompare :: "string \<Rightarrow> string \<Rightarrow> int" where
  "localeCompare [] [] = 0"
| "localeCompare [] (b # bs) = -1"
| "localeCompare (a # as) [] = 1"
| "localeCompare (a # as) (b # bs) =
     (if a = b then localeCompare as bs
      else if (of_char a :: nat) < of_char b then -1 else 1)"

fun join :: "'a list \<Rightarrow> 'a list list \<Rightarrow> 'a list" where
  "join sep [] = []"
| "join sep [x] = x"
| "join sep (x # y # ys) = x @ sep @ join sep (y # ys)"

definition digit_char :: "nat \<Rightarrow> char" where
  "digit_char d = ''0123456789'' ! d"

function show_nat :: "nat \<Rightarrow> string" where
  "show_nat n = (if n < 10 then [digit_char n] else show_nat (n div 10) @ [digit_char (n mod 10)])"
  by pat_completeness auto
termination
  by (relation "measure id") auto

declare show_nat.simps [simp del]

definition int_toString :: "int \<Rightarrow> string" where
  "int_toString i = (if i < 0 then ''-'' @ show_nat (nat (- i)) else show_nat (nat i))"

text \<open>
  \<open>Number.prototype.toFixed(f)\<close>: the sign is split off, the magnitude is scaled by
  \<open>10^f\<close> and rounded to the nearest integer (the larger one on a tie), and the digits
  are printed with exactly \<open>f\<close> of them after the point. (Magnitudes from \<open>10^21\<close> on,
  which ECMAScript prints in exponent notation, do not occur here.)
\<close>

definition toFixed :: "nat \<Rightarrow> rat \<Rightarrow> string" where
  "toFixed f x =
     (let n = nat \<lfloor>\<bar>x\<bar> * 10 ^ f + 1 / 2\<rfloor>;
          ip = show_nat (n div 10 ^ f);
          fp = show_nat (n mod 10 ^ f)
      in (if x < 0 then ''-'' else []) @ ip @
         (if f = 0 then [] else ''.'' @ replicate (f - length fp) (CHR ''0'') @ fp))"

text \<open>
  On a number that is not finite \<open>toFixed\<close> prints its name, whatever the number of
  digits asked for.
\<close>

fun number_toFixed :: "nat \<Rightarrow> js_number \<Rightarrow> string" where
  "number_toFixed f (Num x) = toFixed f x"
| "number_toFixed f PosInfinity = ''Infinity''"
| "number_toFixed f NegInfinity = ''-Infinity''"
| "number_toFixed f NaN = ''NaN''"

text \<open>Reading a string of decimal digits as a number, to say what a printed number denotes.\<close>

definition digit_value :: "char \<Rightarrow> nat" where
  "digit_value c = of_char c - 48"

definition decimal_value :: "string \<Rightarrow> nat" where
  "decimal_value s = foldl (\<lambda>n c. 10 * n + digit_value c) 0 s"



text \<open>
  \<open>Array.prototype.sort(compare)\<close> is stable (ECMAScript 2019): elements that the
  comparator does not separate keep their order. It is modelled by a stable insertion
  sort; \<open>compare a b \<le> 0\<close> leaves \<open>a\<close> in front of \<open>b\<close>.
\<close>

fun sort_insert :: "('a \<Rightarrow> 'a \<Rightarrow> rat) \<Rightarrow> 'a \<Rightarrow> 'a list \<Rightarrow> 'a list" where
  "sort_insert cmp x [] = [x]"
| "sort_insert cmp x (y # ys) =
     (if cmp x y \<le> 0 then x # y # ys else y # sort_insert cmp x ys)"

definition array_sort :: "('a \<Rightarrow> 'a \<Rightarrow> rat) \<Rightarrow> 'a list \<Rightarrow> 'a list" where
  "array_sort cmp xs = foldr (sort_insert cmp) xs []"

text \<open>
  The formatting of dates (\<open>toLocaleDateString\<close>, \<open>toLocaleTimeString\<close>) depends on
  the browser's locale, the current day as printed by \<open>toISOString\<close> on its clock, and
  \<open>JSON.stringify\<close> is the platform's: they are parameters of the model.
\<close>

record browser_env =
  toLocaleDateString :: "int \<Rightarrow> string"
  toLocaleTimeString :: "int \<Rightarrow> string"
  today_iso :: string
  json_stringify :: "NetworkData list \<Rightarrow> string"

section \<open>History view (TestHistory)\<close>

datatype SortField = Timestamp | Download | Upload | Ping | QualityField

datatype SortOrder = Asc | Desc

record history_view =
  searchTerm :: string
  qualityFilter :: string
  sortField :: SortField
  sortOrder :: SortOrder

definition initial_view :: history_view where
  "initial_view = \<lparr>searchTerm = [], qualityFilter = ''all'', sortField = Timestamp, sortOrder = Desc\<rparr>"

definition matchesSearch :: "browser_env \<Rightarrow> string \<Rightarrow> NetworkData \<Rightarrow> bool" where
  "matchesSearch env term t \<longleftrightarrow>
     term = [] \<or>
     js_includes (toLowerCase (quality_label (quality t))) (toLowerCase term) \<or>
     js_includes (toLocaleDateString env (timestamp t)) term"

definition matchesQuality :: "string \<Rightarrow> NetworkData \<Rightarrow> bool" where
  "matchesQuality qf t \<longleftrightarrow> qf = ''all'' \<or> quality_label (quality t) = qf"

text \<open>
  The comparator of the sort. A numeric field is compared by subtraction, the quality
  label (a string) by \<open>localeCompare\<close>; \<open>desc\<close> swaps the operands.
\<close>

fun numeric_field :: "SortField \<Rightarrow> NetworkData \<Rightarrow> rat" where
  "numeric_field Timestamp t = of_int (timestamp t)"
| "numeric_field Download t = download t"
| "numeric_field Upload t = upload t"
| "numeric_field Ping t = of_int (ping t)"
| "numeric_field QualityField t = 0"

definition compare_tests :: "SortField \<Rightarrow> SortOrder \<Rightarrow> NetworkData \<Rightarrow> NetworkData \<Rightarrow> rat" where
  "compare_tests field ord a b =
     (if field = QualityField then
        (if ord = Asc
         then of_int (localeCompare (quality_label (quality a)) (quality_label (quality b)))
         else of_int (localeCompare (quality_label (quality b)) (quality_label (quality a))))
      else
        (if ord = Asc
         then numeric_field field a - numeric_field field b
         else numeric_field field b - numeric_field field a))"

definition filteredData :: "browser_env \<Rightarrow> history_view \<Rightarrow> NetworkData list \<Rightarrow> NetworkData list" where
  "filteredData env v history =
     array_sort (compare_tests (sortField v) (sortOrder v))
       (filter (\<lambda>t. matchesSearch env (searchTerm v) t \<and> matchesQuality (qualityFilter v) t) history)"

definition handleSort :: "SortField \<Rightarrow> history_view \<Rightarrow> history_view" where
  "handleSort field v =
     (if sortField v = field
      then v\<lparr>sortOrder := (if sortOrder v = Asc then Desc else Asc)\<rparr>
      else v\<lparr>sortField := field, sortOrder := Desc\<rparr>)"

subsection \<open>Export\<close>

record export_result =
  blob_content :: string
  blob_type :: string
  file_name :: string
  toast_description :: string

definition csv_headers :: "string list" where
  "csv_headers = [''Date'', ''Time'', ''Download (Mbps)'', ''Upload (Mbps)'', ''Ping (ms)'',
                  ''Jitter (ms)'', ''Packet Loss (%)'', ''Quality'']"

text \<open>
  The cells of a data row, from the values of the record's fields: the export applies
  \<open>toFixed\<close> and \<open>toString\<close> to the numbers it finds. The function is given for
  every number; a record of this theory hands it finite ones.
\<close>

definition csv_cells ::
  "string \<Rightarrow> string \<Rightarrow> js_number \<Rightarrow> js_number \<Rightarrow> int \<Rightarrow> int \<Rightarrow> js_number \<Rightarrow> string \<Rightarrow> string list" where
  "csv_cells date time dl ul pg jt loss q =
     [date,
      time,
      number_toFixed 1 dl,
      number_toFixed 1 ul,
      int_toString pg,
      int_toString jt,
      number_toFixed 2 loss,
      q]"

definition csv_row :: "browser_env \<Rightarrow> NetworkData \<Rightarrow> string list" where
  "csv_row env t =
     csv_cells (toLocaleDateString env (timestamp t))
               (toLocaleTimeString env (timestamp t))
               (Num (download t))
               (Num (upload t))
               (ping t)
               (jitter t)
               (Num (packetLoss t))
               (quality_label (quality t))"

definition csv_table :: "browser_env \<Rightarrow> NetworkData list \<Rightarrow> string list list" where
  "csv_table env fd = csv_headers # map (csv_row env) fd"

definition quote_cell :: "string \<Rightarrow> string" where
  "quote_cell cell = [CHR 0x22] @ cell @ [CHR 0x22]"

definition csvContent :: "browser_env \<Rightarrow> NetworkData list \<Rightarrow> string" where
  "csvContent env fd =
     join [CHR 0x0A] (map (\<lambda>row. join '','' (map quote_cell row)) (csv_table env fd))"

text \<open>
  Both export handlers read \<open>filteredData\<close>, the constant of the current render;
  their bodies are given for any such list, and then for the list the render computes.
\<close>

definition csv_export :: "browser_env \<Rightarrow> NetworkData list \<Rightarrow> export_result" where
  "csv_export env fd =
     \<lparr>blob_content = csvContent env fd,
      blob_type = ''text/csv;charset=utf-8;'',
      file_name = ''network-test-history-'' @ today_iso env @ ''.csv'',
      toast_description = ''Exported '' @ show_nat (length fd) @ '' test records to CSV''\<rparr>"

definition json_export :: "browser_env \<Rightarrow> NetworkData list \<Rightarrow> export_result" where
  "json_export env fd =
     \<lparr>blob_content = json_stringify env fd,
      blob_type = ''application/json;charset=utf-8;'',
      file_name = ''network-test-history-'' @ today_iso env @ ''.json'',
      toast_description = ''Exported '' @ show_nat (length fd) @ '' test records to JSON''\<rparr>"

definition exportToCSV :: "browser_env \<Rightarrow> history_view \<Rightarrow> NetworkData list \<Rightarrow> export_result" where
  "exportToCSV env v history = csv_export env (filteredData env v history)"

definition exportToJSON :: "browser_env \<Rightarrow> history_view \<Rightarrow> NetworkData list \<Rightarrow> export_result" where
  "exportToJSON env v history = json_export env (filteredData env v history)"

text \<open>
  The specification's wording of the search, for comparison with \<open>matchesSearch\<close>: a
  case-insensitive substring match against the quality label or the formatted date.
\<close>

definition spec_matchesSearch :: "browser_env \<Rightarrow> string \<Rightarrow> NetworkData \<Rightarrow> bool" where
  "spec_matchesSearch env term t \<longleftrightarrow>
     js_includes (toLowerCase (quality_label (quality t))) (toLowerCase term) \<or>
     js_includes (toLowerCase (toLocaleDateString env (timestamp t))) (toLowerCase term)"

section \<open>Chart aggregation (PerformanceCharts)\<close>








record chart_stats =
  avgDownload :: rat
  avgUpload :: rat
  avgPing :: rat
  maxDownload :: "rat option"
  minPing :: "int option"



section \<open>Speed test sequencer (SpeedTest)\<close>

text \<open>
  \<open>Partial<NetworkData>\<close>: every field may be missing. \<open>x || d\<close> on a number takes
  \<open>d\<close> when \<open>x\<close> is missing or zero.
\<close>

record partial_data =
  p_download :: "rat option"
  p_upload :: "rat option"
  p_ping :: "int option"
  p_jitter :: "int option"
  p_packetLoss :: "rat option"
  p_timestamp :: "int option"
  p_quality :: "quality option"

definition empty_data :: partial_data where
  "empty_data = \<lparr>p_download = None, p_upload = None, p_ping = None, p_jitter = None,
                  p_packetLoss = None, p_timestamp = None, p_quality = None\<rparr>"

definition or_default :: "'a::zero option \<Rightarrow> 'a \<Rightarrow> 'a" where
  "or_default x d = (case x of None \<Rightarrow> d | Some v \<Rightarrow> if v = 0 then d else v)"

definition as_NetworkData :: "partial_data \<Rightarrow> NetworkData option" where
  "as_NetworkData p =
     (case (p_download p, p_upload p, p_ping p, p_jitter p, p_packetLoss p, p_timestamp p, p_quality p) of
        (Some d, Some u, Some pg, Some j, Some l, Some ts, Some q) \<Rightarrow>
          Some \<lparr>download = d, upload = u, ping = pg, jitter = j, packetLoss = l, timestamp = ts, quality = q\<rparr>
      | _ \<Rightarrow> None)"

subsection \<open>The four measurements\<close>

text \<open>
  What the network and the clock do is an input of the model. A ping sample either
  resolves, with the two readings of \<open>performance.now()\<close> around the \<open>fetch\<close>, or
  is rejected, with the \<open>Math.random()\<close> draw of the fallback. The readings and draws
  are doubles. The effects of the loop are logged so that the waits can be read off.
\<close>

datatype fetch_outcome = FetchResolved rat rat | FetchRejected rat

datatype effect = Fetch | Timeout nat

fun ping_sample :: "fetch_outcome \<Rightarrow> js_number" where
  "ping_sample (FetchResolved start end) = js_sub (Num end) (Num start)"
| "ping_sample (FetchRejected rnd) = js_add (Num 100) (js_mul (Num rnd) (Num 50))"

function ping_loop :: "(nat \<Rightarrow> fetch_outcome) \<Rightarrow> nat \<Rightarrow> js_number list \<times> effect list \<Rightarrow> js_number list \<times> effect list" where
  "ping_loop net i (measurements, trace) =
     (if i < 5
      then ping_loop net (i + 1) (measurements @ [ping_sample (net i)], trace @ [Fetch, Timeout 100])
      else (measurements, trace))"
  by pat_completeness auto
termination
  by (relation "measure (\<lambda>(net, i, acc). 5 - i)") auto

declare ping_loop.simps [simp del]

record ping_result =
  pr_ping :: js_number
  pr_jitter :: js_number

definition measurePing :: "(nat \<Rightarrow> fetch_outcome) \<Rightarrow> ping_result \<times> effect list" where
  "measurePing net =
     (let (measurements, trace) = ping_loop net 0 ([], []);
          avgPing = js_div (foldl (\<lambda>a b. js_add a b) (Num 0) measurements)
                           (Num (of_nat (length measurements)));
          jit = js_sub (number_max measurements) (number_min measurements)
      in (\<lparr>pr_ping = math_round avgPing, pr_jitter = math_round jit\<rparr>, trace))"

text \<open>
  A download sample is timed around a timer, by two readings of the clock. The
  \<open>catch\<close> branch of the sample is kept although a timer cannot throw.
\<close>

datatype transfer_outcome = Transferred rat rat | TransferFailed rat

definition download_sample :: "rat \<Rightarrow> transfer_outcome \<Rightarrow> js_number" where
  "download_sample sz out =
     (case out of
        Transferred start end \<Rightarrow>
          (let duration = js_div (js_sub (Num end) (Num start)) (Num 1000)
           in js_div (js_mul (Num sz) (Num 8)) duration)
      | TransferFailed rnd \<Rightarrow> js_add (Num 25) (js_mul (Num rnd) (Num 75)))"

definition testSizes :: "rat list" where
  "testSizes = [1, 2, 5]"

definition measureDownloadSpeed :: "(nat \<Rightarrow> transfer_outcome) \<Rightarrow> js_number" where
  "measureDownloadSpeed xfer =
     (let totalSpeed = foldl (\<lambda>total (i, sz). js_add total (download_sample sz (xfer i))) (Num 0)
                         (enumerate 0 testSizes)
      in js_div (math_round (js_mul (js_div totalSpeed (Num (of_nat (length testSizes)))) (Num 10)))
                (Num 10))"

text \<open>
  \<open>measureUploadSpeed\<close> reads \<open>currentTest\<close>, a constant of the render in which the
  function was created: the value is the one its closure holds, not the state cell.
  The literals \<open>0.1\<close> and \<open>0.4\<close> are the doubles nearest to them.
\<close>

definition measureUploadSpeed :: "partial_data \<Rightarrow> rat \<Rightarrow> js_number" where
  "measureUploadSpeed closure_currentTest rnd =
     (let downloadSpeed = Num (or_default (p_download closure_currentTest) 50);
          uploadRatio = js_add (fl (1 / 10)) (js_mul (Num rnd) (fl (4 / 10)))
      in js_div (math_round (js_mul (js_mul downloadSpeed uploadRatio) (Num 10))) (Num 10))"

definition measurePacketLoss :: "rat \<Rightarrow> js_number" where
  "measurePacketLoss rnd = js_div (math_round (js_mul (js_mul (Num rnd) (Num 2)) (Num 100))) (Num 100)"

subsection \<open>The run as a process\<close>

text \<open>
  \<open>runSpeedTest\<close> is an asynchronous function: it runs up to an \<open>await\<close>, gives
  control back to the event loop, and is resumed when the awaited promise settles. In
  between the browser may deliver a click. A run in flight is a task: the point at which
  it waits, its local \<open>results\<close> object, and the \<open>currentTest\<close> its closure holds.
  The closure was built in a render at or before the click that started the run; which
  render that was is an input of \<open>ClickStart\<close> (on a fresh component it is the
  initial state \<open>{}\<close>).
\<close>

datatype phase = Idle | PingPhase | DownloadPhase | UploadPhase | Complete

datatype await_point =
    AwaitPing | AwaitDownloadDelay | AwaitDownload | AwaitUploadDelay
  | AwaitUpload | AwaitPacketLoss | AwaitCompleteTimer

record run_task =
  pc :: await_point
  results :: partial_data
  closure_currentTest :: partial_data

record speedtest_state =
  parent :: analyzer_state
  currentTest :: partial_data
  testPhase :: phase
  progress :: nat
  tasks :: "run_task list"

definition initial_speedtest :: speedtest_state where
  "initial_speedtest =
     \<lparr>parent = initial_analyzer, currentTest = empty_data, testPhase = Idle, progress = 0, tasks = []\<rparr>"

datatype settled =
    PingSettled "nat \<Rightarrow> fetch_outcome"
  | TimerFired
  | DownloadSettled "nat \<Rightarrow> transfer_outcome"
  | UploadSettled rat
  | PacketLossSettled rat int
  | AwaitThrew

datatype event = ClickStart partial_data | ClickStop | Resume nat settled

definition set_parent :: "analyzer_action \<Rightarrow> speedtest_state \<Rightarrow> speedtest_state" where
  "set_parent a s = s\<lparr>parent := analyzer_step a (parent s)\<rparr>"

text \<open>The synchronous head of \<open>runSpeedTest\<close>, up to the first \<open>await\<close>.\<close>

definition runSpeedTest :: "partial_data \<Rightarrow> speedtest_state \<Rightarrow> speedtest_state" where
  "runSpeedTest closure s =
     (let s1 = set_parent (SetIsRunning True) s;
          s2 = s1\<lparr>testPhase := PingPhase, progress := 0\<rparr>;
          s3 = s2\<lparr>testPhase := PingPhase\<rparr>
      in s3\<lparr>tasks := tasks s3 @ [\<lparr>pc = AwaitPing, results = empty_data, closure_currentTest = closure\<rparr>]\<rparr>)"

definition stopTest :: "speedtest_state \<Rightarrow> speedtest_state" where
  "stopTest s =
     (set_parent (SetIsRunning False) s)\<lparr>testPhase := Idle, progress := 0, currentTest := empty_data\<rparr>"

text \<open>The \<open>catch\<close> block of \<open>runSpeedTest\<close>.\<close>

definition catch_error :: "speedtest_state \<Rightarrow> speedtest_state" where
  "catch_error s = (set_parent (SetIsRunning False) s)\<lparr>testPhase := Idle\<rparr>"

text \<open>
  One resumption: the code between two \<open>await\<close>s. The result is the new state and the
  task, if it still waits; \<open>None\<close> when the settled promise is not the one the task
  waits for, and when the measurement is not a finite number (a record of this theory
  cannot hold it; what the source does then is not modelled by \<open>resume\<close>).
\<close>

fun resume :: "run_task \<Rightarrow> settled \<Rightarrow> speedtest_state \<Rightarrow> (speedtest_state \<times> run_task option) option" where
  "resume t (PingSettled net) s =
     (if pc t \<noteq> AwaitPing then None else
      let (pingResult, trace) = measurePing net in
      case (as_integer (pr_ping pingResult), as_integer (pr_jitter pingResult)) of
        (Some pg, Some jt) \<Rightarrow>
          (let r = (results t)\<lparr>p_ping := Some pg, p_jitter := Some jt\<rparr>
           in Some (s\<lparr>currentTest := r, progress := 25, testPhase := DownloadPhase\<rparr>,
                    Some (t\<lparr>pc := AwaitDownloadDelay, results := r\<rparr>)))
      | _ \<Rightarrow> None)"
| "resume t TimerFired s =
     (if pc t = AwaitDownloadDelay then Some (s, Some (t\<lparr>pc := AwaitDownload\<rparr>))
      else if pc t = AwaitUploadDelay then Some (s, Some (t\<lparr>pc := AwaitUpload\<rparr>))
      else if pc t = AwaitCompleteTimer then
        (case as_NetworkData (results t) of
           None \<Rightarrow> None
         | Some record \<Rightarrow>
             Some (set_parent (SetIsRunning False)
                     ((set_parent (TestComplete record) s)\<lparr>testPhase := Idle\<rparr>), None))
      else None)"
| "resume t (DownloadSettled xfer) s =
     (if pc t \<noteq> AwaitDownload then None else
      case as_finite (measureDownloadSpeed xfer) of
        None \<Rightarrow> None
      | Some d \<Rightarrow>
          (let r = (results t)\<lparr>p_download := Some d\<rparr>
           in Some (s\<lparr>currentTest := r, progress := 65, testPhase := UploadPhase\<rparr>,
                    Some (t\<lparr>pc := AwaitUploadDelay, results := r\<rparr>))))"
| "resume t (UploadSettled rnd) s =
     (if pc t \<noteq> AwaitUpload then None else
      case as_finite (measureUploadSpeed (closure_currentTest t) rnd) of
        None \<Rightarrow> None
      | Some u \<Rightarrow>
          (let r = (results t)\<lparr>p_upload := Some u\<rparr>
           in Some (s\<lparr>currentTest := r, progress := 90\<rparr>,
                    Some (t\<lparr>pc := AwaitPacketLoss, results := r\<rparr>))))"
| "resume t (PacketLossSettled rnd now) s =
     (if pc t \<noteq> AwaitPacketLoss then None else
      case as_finite (measurePacketLoss rnd) of
        None \<Rightarrow> None
      | Some l \<Rightarrow>
          (let r1 = (results t)\<lparr>p_packetLoss := Some l, p_timestamp := Some now\<rparr>;
               r = r1\<lparr>p_quality := Some (getNetworkQuality (or_default (p_download r1) 0)
                                                           (of_int (or_default (p_ping r1) 0)))\<rparr>
           in Some (s\<lparr>currentTest := r, progress := 100, testPhase := Complete\<rparr>,
                    Some (t\<lparr>pc := AwaitCompleteTimer, results := r\<rparr>))))"
| "resume t AwaitThrew s =
     (if pc t = AwaitCompleteTimer then None else Some (catch_error s, None))"

text \<open>
  The buttons: \<open>Start Test\<close> is rendered while \<open>isRunning\<close> is false,
  \<open>Stop Test\<close> while it is true.
\<close>

fun step :: "event \<Rightarrow> speedtest_state \<Rightarrow> speedtest_state option" where
  "step (ClickStart closure) s =
     (if isTestRunning (parent s) then None else Some (runSpeedTest closure s))"
| "step ClickStop s =
     (if isTestRunning (parent s) then Some (stopTest s) else None)"
| "step (Resume i x) s =
     (if i < length (tasks s) then
        (case resume (tasks s ! i) x s of
           None \<Rightarrow> None
         | Some (s', Some t') \<Rightarrow> Some (s'\<lparr>tasks := (tasks s')[i := t']\<rparr>)
         | Some (s', None) \<Rightarrow> Some (s'\<lparr>tasks := take i (tasks s') @ drop (i + 1) (tasks s')\<rparr>))
      else None)"

fun run_events :: "event list \<Rightarrow> speedtest_state \<Rightarrow> speedtest_state option" where
  "run_events [] s = Some s"
| "run_events (e # es) s = (case step e s of None \<Rightarrow> None | Some s' \<Rightarrow> run_events es s')"

section \<open>The history view over a store with references\<close>

text \<open>
  JavaScript arrays and objects are references. To see what the history view can change,
  the arrays live in a heap: an array is an address holding a list of object references,
  a record is an address holding its fields. \<open>filter\<close> allocates a new array;
  \<open>sort\<close> reorders the array it is called on, in place, and returns it.
\<close>

record heap =
  arrays :: "nat \<Rightarrow> nat list"
  objects :: "nat \<Rightarrow> NetworkData"
  next_addr :: nat

definition heap_read :: "nat \<Rightarrow> heap \<Rightarrow> NetworkData list" where
  "heap_read a h = map (objects h) (arrays h a)"

definition alloc_array :: "nat list \<Rightarrow> heap \<Rightarrow> heap \<times> nat" where
  "alloc_array xs h = (h\<lparr>arrays := (arrays h)(next_addr h := xs), next_addr := next_addr h + 1\<rparr>, next_addr h)"

definition heap_filter :: "(NetworkData \<Rightarrow> bool) \<Rightarrow> nat \<Rightarrow> heap \<Rightarrow> heap \<times> nat" where
  "heap_filter p a h = alloc_array (filter (\<lambda>r. p (objects h r)) (arrays h a)) h"

definition heap_sort :: "(NetworkData \<Rightarrow> NetworkData \<Rightarrow> rat) \<Rightarrow> nat \<Rightarrow> heap \<Rightarrow> heap \<times> nat" where
  "heap_sort cmp a h =
     (h\<lparr>arrays := (arrays h)(a := array_sort (\<lambda>x y. cmp (objects h x) (objects h y)) (arrays h a))\<rparr>, a)"

definition filteredData_heap :: "browser_env \<Rightarrow> history_view \<Rightarrow> nat \<Rightarrow> heap \<Rightarrow> heap \<times> nat" where
  "filteredData_heap env v testHistory_addr h =
     (let (h1, a1) = heap_filter (\<lambda>t. matchesSearch env (searchTerm v) t \<and> matchesQuality (qualityFilter v) t)
                       testHistory_addr h
      in heap_sort (compare_tests (sortField v) (sortOrder v)) a1 h1)"

text \<open>
  The component: its view state, the heap, the array \<open>filteredData\<close> of the last
  render, and the files handed to the browser. Every handler is followed by a render,
  which computes \<open>filteredData\<close> anew from the \<open>testHistory\<close> prop.
\<close>

record history_component =
  hv :: history_view
  hp :: heap
  rendered :: nat
  downloads :: "export_result list"

datatype view_op =
    SetSearchTerm string
  | SetQualityFilter string
  | ClickSort SortField
  | ClickExportCSV
  | ClickExportJSON
  | ClickClearHistory

definition render :: "browser_env \<Rightarrow> nat \<Rightarrow> history_component \<Rightarrow> history_component" where
  "render env testHistory_addr c =
     (let (h', fd) = filteredData_heap env (hv c) testHistory_addr (hp c)
      in c\<lparr>hp := h', rendered := fd\<rparr>)"

fun handler :: "browser_env \<Rightarrow> view_op \<Rightarrow> history_component \<Rightarrow> history_component" where
  "handler env (SetSearchTerm s) c = c\<lparr>hv := (hv c)\<lparr>searchTerm := s\<rparr>\<rparr>"
| "handler env (SetQualityFilter q) c = c\<lparr>hv := (hv c)\<lparr>qualityFilter := q\<rparr>\<rparr>"
| "handler env (ClickSort field) c = c\<lparr>hv := handleSort field (hv c)\<rparr>"
| "handler env ClickExportCSV c =
     c\<lparr>downloads := downloads c @ [csv_export env (heap_read (rendered c) (hp c))]\<rparr>"
| "handler env ClickExportJSON c =
     c\<lparr>downloads := downloads c @ [json_export env (heap_read (rendered c) (hp c))]\<rparr>"
| "handler env ClickClearHistory c = c"

definition mount :: "browser_env \<Rightarrow> nat \<Rightarrow> heap \<Rightarrow> history_component" where
  "mount env testHistory_addr h =
     render env testHistory_addr \<lparr>hv = initial_view, hp = h, rendered = 0, downloads = []\<rparr>"

definition apply_ops :: "browser_env \<Rightarrow> nat \<Rightarrow> view_op list \<Rightarrow> history_component \<Rightarrow> history_component" where
  "apply_ops env testHistory_addr ops c =
     foldl (\<lambda>c op. render env testHistory_addr (handler env op c)) c ops"

text \<open>
  What the handlers have to preserve: the store's array is allocated and holds what it
  held in the heap \<open>h\<close> the view was mounted on, and every record is as it was.
\<close>

definition store_kept :: "browser_env \<Rightarrow> nat \<Rightarrow> heap \<Rightarrow> history_component \<Rightarrow> bool" where
  "store_kept env a h c \<longleftrightarrow>
     a < next_addr (hp c) \<and> arrays (hp c) a = arrays h a \<and> objects (hp c) = objects h"

section \<open>Inputs used in the examples\<close>





text \<open>
  A clock too coarse to see the timer of a download sample: the two readings around
  it are equal.
\<close>

definition stalled_xfer :: "nat \<Rightarrow> transfer_outcome" where
  "stalled_xfer i = Transferred 1000 1000"

text \<open>
  Two browsers: one prints dates the en-US way, one uses the Japanese imperial calendar
  (locale \<open>ja-JP-u-ca-japanese\<close>), whose dates start with the letter of the era.
\<close>

definition en_US_env :: browser_env where
  "en_US_env = \<lparr>toLocaleDateString = (\<lambda>t. ''11/2/2026''),
                 toLocaleTimeString = (\<lambda>t. ''12:38:00 PM''),
                 today_iso = ''2026-11-02'',
                 json_stringify = (\<lambda>fd. ''[]'')\<rparr>"

definition ja_era_env :: browser_env where
  "ja_era_env = \<lparr>toLocaleDateString = (\<lambda>t. ''R8/11/2''),
                  toLocaleTimeString = (\<lambda>t. ''12:38:00''),
                  today_iso = ''2026-11-02'',
                  json_stringify = (\<lambda>fd. ''[]'')\<rparr>"

text \<open>Three records; the first two have the same download speed.\<close>

definition test_a :: NetworkData where
  "test_a = \<lparr>download = 45, upload = 123 / 10, ping = 30, jitter = 3, packetLoss = 1 / 2,
             timestamp = 1000, quality = Fair\<rparr>"

definition test_b :: NetworkData where
  "test_b = \<lparr>download = 45, upload = 10, ping = 130, jitter = 6, packetLoss = 123 / 100,
             timestamp = 2000, quality = Poor\<rparr>"

definition test_c :: NetworkData where
  "test_c = \<lparr>download = 120, upload = 36, ping = 15, jitter = 2, packetLoss = 0,
             timestamp = 3000, quality = Excellent\<rparr>"


text \<open>A heap holding the store \<open>[test_a, test_b]\<close> as the array at address 0.\<close>

definition example_heap :: heap where
  "example_heap = \<lparr>arrays = (\<lambda>a. if a = 0 then [0, 1] else []),
                    objects = (\<lambda>r. if r = 0 then test_a else test_b),
                    next_addr = 1\<rparr>"

text \<open>
  A network answering every ping after 15 ms, and transfers timed so that each of the
  three download samples measures 120 Mbps (elapsed times of 66.67, 133.33 and 333.33 ms;
  the subtraction of the readings rounds them to doubles).
\<close>

definition steady_net :: "nat \<Rightarrow> fetch_outcome" where
  "steady_net i = FetchResolved 0 15"

definition fast_xfer :: "nat \<Rightarrow> transfer_outcome" where
  "fast_xfer i =
     (if i = 0 then Transferred 0 (200 / 3)
      else if i = 1 then Transferred 0 (400 / 3)
      else Transferred 0 (1000 / 3))"

text \<open>
  The first run on a fresh component, left alone; and the same run with a click on
  \<open>Stop Test\<close> while the download is being measured.
\<close>

definition completed_run :: "event list" where
  "completed_run =
     [ClickStart empty_data,
      Resume 0 (PingSettled steady_net),
      Resume 0 TimerFired,
      Resume 0 (DownloadSettled fast_xfer),
      Resume 0 TimerFired,
      Resume 0 (UploadSettled 0),
      Resume 0 (PacketLossSettled (1 / 2) 1000),
      Resume 0 TimerFired]"

definition stopped_run :: "event list" where
  "stopped_run =
     [ClickStart empty_data,
      Resume 0 (PingSettled steady_net),
      Resume 0 TimerFired,
      ClickStop,
      Resume 0 (DownloadSettled fast_xfer),
      Resume 0 TimerFired,
      Resume 0 (UploadSettled 0),
      Resume 0 (PacketLossSettled (1 / 2) 1000),
      Resume 0 TimerFired]"

text \<open>What the user sees of the sequencer, and the store.\<close>

definition observe :: "speedtest_state \<Rightarrow> phase \<times> nat \<times> partial_data \<times> bool \<times> NetworkData list" where
  "observe s = (testPhase s, progress s, currentTest s, isTestRunning (parent s), testHistory (parent s))"

section \<open>Quality classifier and store\<close>

text \<open>
  C4: the classifier is a function of (download, ping) that tries the tiers in order:
  excellent is download \<open>\<ge> 100\<close> with ping \<open>\<le> 20\<close>; good is download \<open>\<ge> 50\<close> with
  ping \<open>\<le> 50\<close>, excellent having failed; fair is download \<open>\<ge> 25\<close> with ping \<open>\<le> 100\<close>,
  both having failed; poor is everything else. Each input gets exactly one tier.
\<close>

theorem classifier_tiers:
  "(getNetworkQuality d p = Excellent \<longleftrightarrow> d \<ge> 100 \<and> p \<le> 20)
   \<and> (getNetworkQuality d p = Good \<longleftrightarrow> (d < 100 \<or> 20 < p) \<and> d \<ge> 50 \<and> p \<le> 50)
   \<and> (getNetworkQuality d p = Fair \<longleftrightarrow>
         (d < 100 \<or> 20 < p) \<and> (d < 50 \<or> 50 < p) \<and> d \<ge> 25 \<and> p \<le> 100)
   \<and> (getNetworkQuality d p = Poor \<longleftrightarrow>
         (d < 100 \<or> 20 < p) \<and> (d < 50 \<or> 50 < p) \<and> (d < 25 \<or> 100 < p))"
  by (auto simp: getNetworkQuality_def)

lemma take_cut: "take 100 (as @ r # take 99 h) = take 100 (as @ r # h)"
  by (cases "100 - length as") (simp_all add: min_def)

lemma append_all_history:
  "length (testHistory s) \<le> 100 \<Longrightarrow>
   testHistory (append_all rs s) = take 100 (rev rs @ testHistory s)"
  unfolding append_all_def
proof (induction rs arbitrary: s)
  case Nil
  then show ?case by simp
next
  case (Cons r rs)
  let ?s' = "analyzer_step (TestComplete r) s"
  have h: "testHistory ?s' = r # take 99 (testHistory s)"
    by (simp add: handleTestComplete_def)
  have "length (testHistory ?s') \<le> 100"
    by (simp only: h) simp
  from Cons.IH[OF this]
  have "testHistory (foldl (\<lambda>st r. analyzer_step (TestComplete r) st) ?s' rs)
        = take 100 (rev rs @ r # take 99 (testHistory s))"
    by (simp only: h)
  also have "\<dots> = take 100 (rev rs @ r # testHistory s)"
    by (rule take_cut)
  finally show ?case by simp
qed

text \<open>
  C3: appending puts the new record in front and keeps at most 100 entries, whatever the
  store held; appending any records one after the other to the empty store leaves the
  100 most recent of them (all of them, if fewer), the most recent first; and of the
  state changes of the component only the append changes the store.
\<close>

theorem store_append_bounded:
  "length (handleTestComplete r prev) \<le> 100
   \<and> testHistory (append_all rs initial_analyzer) = take 100 (rev rs)
   \<and> testHistory (analyzer_step a s) =
       (case a of TestComplete r \<Rightarrow> r # take 99 (testHistory s) | _ \<Rightarrow> testHistory s)"
  using append_all_history[of initial_analyzer rs]
  by (simp add: handleTestComplete_def initial_analyzer_def split: analyzer_action.splits)

section \<open>Rounding to the nearest double\<close>

lemma two_1024_code [code]:
  "two_1024 = 179769313486231590772930519078902473361797697894230657273430081157732675805500963132708477322407536021120113879871393357658789768814416622492847430639474124377767893424865485276302219601246094119453082952085005768838150682342462881473913110540827237163350510684586298239947245938479716304835356329624224137216"
  by (simp add: two_1024_def)

lemma pow2_powi: "pow2 k = 2 powi k"
  by (simp add: pow2_def power_int_def power_one_over inverse_eq_divide)


lemma pow2_add: "pow2 (i + j) = pow2 i * pow2 j"
  by (simp add: pow2_powi power_int_add)
















section \<open>Ping phase\<close>




lemma js_round_nearest: "\<bar>of_int (js_round x) - x\<bar> \<le> 1 / 2"
  unfolding js_round_def by linarith








section \<open>Sorting the history view\<close>

lemma sort_insert_asc:
  "sort_insert (\<lambda>a b. k a - k b) x ys = insort_key k x ys"
  by (induction ys) simp_all

lemma sort_insert_desc:
  "sort_insert (\<lambda>a b. k b - k a) x ys = insort_key (\<lambda>t. - k t) x ys"
  by (induction ys) simp_all

lemma array_sort_asc: "array_sort (\<lambda>a b. k a - k b) xs = sort_key k xs"
  unfolding array_sort_def sort_key_def
  by (induction xs) (simp_all add: sort_insert_asc)

lemma array_sort_desc: "array_sort (\<lambda>a b. k b - k a) xs = sort_key (\<lambda>t. - k t) xs"
  unfolding array_sort_def sort_key_def
  by (induction xs) (simp_all add: sort_insert_desc)

lemma sorted_rev_neg:
  fixes k :: "'a \<Rightarrow> rat"
  shows "sorted (map k (rev (sort_key (\<lambda>t. - k t) xs)))"
proof -
  have "sorted (map (\<lambda>t. - k t) (sort_key (\<lambda>t. - k t) xs))"
    by (rule sorted_sort_key)
  then have "sorted_wrt (\<lambda>a b. k b \<le> k a) (sort_key (\<lambda>t. - k t) xs)"
    by (simp add: sorted_wrt_map)
  then show ?thesis
    by (simp add: sorted_wrt_map rev_map[symmetric] sorted_wrt_rev)
qed

lemma keys_reversed:
  fixes k :: "'a \<Rightarrow> rat"
  shows "map k (sort_key k xs) = rev (map k (sort_key (\<lambda>t. - k t) xs))"
proof -
  have a: "sort (map k xs) = map k (sort_key k xs)"
    by (rule properties_for_sort) (simp_all add: sorted_sort_key)
  have b: "sort (map k xs) = map k (rev (sort_key (\<lambda>t. - k t) xs))"
    by (rule properties_for_sort) (simp_all add: sorted_rev_neg)
  from a b show ?thesis by (simp add: rev_map)
qed

lemma distinct_keys_reversed:
  fixes k :: "'a \<Rightarrow> rat"
  assumes "distinct (map k xs)"
  shows "sort_key k xs = rev (sort_key (\<lambda>t. - k t) xs)"
proof -
  have "map k (sort_key k xs) = map k (rev (sort_key (\<lambda>t. - k t) xs))"
    by (simp add: keys_reversed rev_map)
  moreover have "inj_on k (set (sort_key k xs) \<union> set (rev (sort_key (\<lambda>t. - k t) xs)))"
    using assms by (simp add: distinct_map)
  ultimately show ?thesis
    using inj_on_map_eq_map by blast
qed

lemma compare_download_asc: "compare_tests Download Asc = (\<lambda>a b. download a - download b)"
  by (intro ext) (simp add: compare_tests_def)

lemma compare_download_desc: "compare_tests Download Desc = (\<lambda>a b. download b - download a)"
  by (intro ext) (simp add: compare_tests_def)

lemma filteredData_download_asc:
  "filteredData env (v\<lparr>sortField := Download, sortOrder := Asc\<rparr>) history =
   sort_key download
     (filter (\<lambda>t. matchesSearch env (searchTerm v) t \<and> matchesQuality (qualityFilter v) t) history)"
  by (simp add: filteredData_def compare_download_asc array_sort_asc)

lemma filteredData_download_desc:
  "filteredData env (v\<lparr>sortField := Download, sortOrder := Desc\<rparr>) history =
   sort_key (\<lambda>t. - download t)
     (filter (\<lambda>t. matchesSearch env (searchTerm v) t \<and> matchesQuality (qualityFilter v) t) history)"
  by (simp add: filteredData_def compare_download_desc array_sort_desc)

lemma handleSort_twice: "handleSort (sortField v) (handleSort (sortField v) v) = v"
  by (cases "sortOrder v") (simp_all add: handleSort_def)

lemma handleSort_two_clicks:
  "handleSort f (handleSort f v) =
     (if sortField v = f then v else v\<lparr>sortField := f, sortOrder := Asc\<rparr>)"
  by (cases "sortOrder v") (simp_all add: handleSort_def)

lemma sort_key_neg_stable:
  fixes k :: "'a \<Rightarrow> rat"
  shows "filter (\<lambda>t. k t = d) (sort_key (\<lambda>t. - k t) xs) = filter (\<lambda>t. k t = d) xs"
  using sort_key_stable[of "\<lambda>t. - k t" "- d" xs] by simp

text \<open>
  C5, as the code has it: the view sorted by download ascending has its download column
  in ascending order, the view sorted descending in descending order, and in both the
  records with the same download speed stand in the order they have in the store (the
  sort is stable). So when no two records of the input have the same download speed, the
  ascending view is exactly the reverse of the descending view; for any input, the
  download columns of the two views are reverses of each other. Clicking the current sort
  key twice gives back the view state (and so the order) from before; clicking another
  key twice leaves that key ascending. Clicking a key makes it the sort key, toggles the
  direction if it was the sort key already and otherwise sets the direction to descending.
\<close>

theorem download_sort_directions:
  "(distinct (map download history) \<longrightarrow>
      filteredData env (v\<lparr>sortField := Download, sortOrder := Asc\<rparr>) history =
      rev (filteredData env (v\<lparr>sortField := Download, sortOrder := Desc\<rparr>) history))
   \<and> map download (filteredData env (v\<lparr>sortField := Download, sortOrder := Asc\<rparr>) history) =
     rev (map download (filteredData env (v\<lparr>sortField := Download, sortOrder := Desc\<rparr>) history))
   \<and> sorted (map download (filteredData env (v\<lparr>sortField := Download, sortOrder := Asc\<rparr>) history))
   \<and> sorted (rev (map download (filteredData env (v\<lparr>sortField := Download, sortOrder := Desc\<rparr>) history)))
   \<and> filter (\<lambda>t. download t = d) (filteredData env (v\<lparr>sortField := Download, sortOrder := Asc\<rparr>) history) =
     filter (\<lambda>t. download t = d)
       (filter (\<lambda>t. matchesSearch env (searchTerm v) t \<and> matchesQuality (qualityFilter v) t) history)
   \<and> filter (\<lambda>t. download t = d) (filteredData env (v\<lparr>sortField := Download, sortOrder := Desc\<rparr>) history) =
     filter (\<lambda>t. download t = d)
       (filter (\<lambda>t. matchesSearch env (searchTerm v) t \<and> matchesQuality (qualityFilter v) t) history)
   \<and> handleSort (sortField v) (handleSort (sortField v) v) = v
   \<and> handleSort f (handleSort f v) =
       (if sortField v = f then v else v\<lparr>sortField := f, sortOrder := Asc\<rparr>)
   \<and> sortField (handleSort f v) = f
   \<and> sortOrder (handleSort f v) =
       (if sortField v = f then (if sortOrder v = Asc then Desc else Asc) else Desc)"
proof (intro conjI impI)
  assume "distinct (map download history)"
  then have "distinct (map download
      (filter (\<lambda>t. matchesSearch env (searchTerm v) t \<and> matchesQuality (qualityFilter v) t) history))"
    by (rule distinct_map_filter)
  then show "filteredData env (v\<lparr>sortField := Download, sortOrder := Asc\<rparr>) history =
      rev (filteredData env (v\<lparr>sortField := Download, sortOrder := Desc\<rparr>) history)"
    unfolding filteredData_download_asc filteredData_download_desc
    by (rule distinct_keys_reversed)
next
  show "map download (filteredData env (v\<lparr>sortField := Download, sortOrder := Asc\<rparr>) history) =
     rev (map download (filteredData env (v\<lparr>sortField := Download, sortOrder := Desc\<rparr>) history))"
    unfolding filteredData_download_asc filteredData_download_desc
    by (rule keys_reversed)
next
  show "sorted (map download (filteredData env (v\<lparr>sortField := Download, sortOrder := Asc\<rparr>) history))"
    unfolding filteredData_download_asc by (rule sorted_sort_key)
next
  show "sorted (rev (map download (filteredData env (v\<lparr>sortField := Download, sortOrder := Desc\<rparr>) history)))"
    unfolding filteredData_download_desc using sorted_rev_neg[of download] by (simp add: rev_map)
next
  show "filter (\<lambda>t. download t = d) (filteredData env (v\<lparr>sortField := Download, sortOrder := Asc\<rparr>) history) =
     filter (\<lambda>t. download t = d)
       (filter (\<lambda>t. matchesSearch env (searchTerm v) t \<and> matchesQuality (qualityFilter v) t) history)"
    unfolding filteredData_download_asc by (rule sort_key_stable)
next
  show "filter (\<lambda>t. download t = d) (filteredData env (v\<lparr>sortField := Download, sortOrder := Desc\<rparr>) history) =
     filter (\<lambda>t. download t = d)
       (filter (\<lambda>t. matchesSearch env (searchTerm v) t \<and> matchesQuality (qualityFilter v) t) history)"
    unfolding filteredData_download_desc by (rule sort_key_neg_stable)
next
  show "handleSort (sortField v) (handleSort (sortField v) v) = v"
    by (rule handleSort_twice)
next
  show "handleSort f (handleSort f v) =
       (if sortField v = f then v else v\<lparr>sortField := f, sortOrder := Asc\<rparr>)"
    by (rule handleSort_two_clicks)
next
  show "sortField (handleSort f v) = f"
    by (simp add: handleSort_def)
next
  show "sortOrder (handleSort f v) =
       (if sortField v = f then (if sortOrder v = Asc then Desc else Asc) else Desc)"
    by (simp add: handleSort_def)
qed

theorem download_sort_directions_witness:
  "distinct (map download [test_a, test_c])
   \<and> filteredData en_US_env (initial_view\<lparr>sortField := Download, sortOrder := Asc\<rparr>) [test_a, test_c] =
     rev (filteredData en_US_env (initial_view\<lparr>sortField := Download, sortOrder := Desc\<rparr>) [test_a, test_c])
   \<and> filteredData en_US_env (initial_view\<lparr>sortField := Download, sortOrder := Asc\<rparr>) [test_a, test_c] =
     [test_a, test_c]"
proof -
  have d: "distinct (map download [test_a, test_c])"
    by (simp add: test_a_def test_c_def)
  have e: "filteredData en_US_env (initial_view\<lparr>sortField := Download, sortOrder := Asc\<rparr>) [test_a, test_c] =
     [test_a, test_c]"
    by code_simp
  from d e download_sort_directions[of "[test_a, test_c]" en_US_env initial_view]
  show ?thesis by blast
qed

text \<open>
  C5 as stated fails: two records with the same download speed keep their store order in
  both directions (the sort is stable), so the two views are equal and not reversed.
\<close>

theorem download_sort_counterexample:
  "filteredData en_US_env (initial_view\<lparr>sortField := Download, sortOrder := Asc\<rparr>) [test_a, test_b]
   \<noteq> rev (filteredData en_US_env (initial_view\<lparr>sortField := Download, sortOrder := Desc\<rparr>) [test_a, test_b])
   \<and> filteredData en_US_env (initial_view\<lparr>sortField := Download, sortOrder := Asc\<rparr>) [test_a, test_b]
     = [test_a, test_b]
   \<and> filteredData en_US_env (initial_view\<lparr>sortField := Download, sortOrder := Desc\<rparr>) [test_a, test_b]
     = [test_a, test_b]"
  by code_simp

section \<open>Filtering the history view\<close>

lemma mset_sort_insert: "mset (sort_insert cmp x ys) = add_mset x (mset ys)"
  by (induction ys) simp_all

lemma mset_array_sort: "mset (array_sort cmp xs) = mset xs"
  unfolding array_sort_def
  by (induction xs) (simp_all add: mset_sort_insert)

lemma set_array_sort: "set (array_sort cmp xs) = set xs"
  using mset_array_sort[of cmp xs] by (metis set_mset_mset)

lemma starts_with_iff: "starts_with hay needle \<longleftrightarrow> (\<exists>r. hay = needle @ r)"
  by (induction hay needle rule: starts_with.induct) auto

lemma js_includes_iff: "js_includes hay needle \<longleftrightarrow> (\<exists>p r. hay = p @ needle @ r)"
proof (induction hay)
  case Nil
  show ?case by simp
next
  case (Cons h hs)
  show ?case
  proof
    assume "js_includes (h # hs) needle"
    then consider "starts_with (h # hs) needle" | "js_includes hs needle" by auto
    then show "\<exists>p r. h # hs = p @ needle @ r"
    proof cases
      case 1
      then obtain r where "h # hs = needle @ r" by (auto simp: starts_with_iff)
      then have "h # hs = [] @ needle @ r" by simp
      then show ?thesis by blast
    next
      case 2
      then obtain p r where "hs = p @ needle @ r" using Cons.IH by blast
      then have "h # hs = (h # p) @ needle @ r" by simp
      then show ?thesis by blast
    qed
  next
    assume "\<exists>p r. h # hs = p @ needle @ r"
    then obtain p r where e: "h # hs = p @ needle @ r" by blast
    show "js_includes (h # hs) needle"
    proof (cases p)
      case Nil
      with e have "starts_with (h # hs) needle" by (auto simp: starts_with_iff)
      then show ?thesis by simp
    next
      case (Cons a p')
      with e have "hs = p' @ needle @ r" by simp
      then have "js_includes hs needle" using Cons.IH by blast
      then show ?thesis by simp
    qed
  qed
qed

lemma label_lower: "toLowerCase (quality_label q) = quality_label q"
  by (cases q) (simp_all add: toLowerCase_def)

lemma matchesQuality_poor: "matchesQuality ''poor'' t \<longleftrightarrow> quality t = Poor"
  by (cases "quality t") (simp_all add: matchesQuality_def)

lemma mset_filteredData:
  "mset (filteredData env v history) =
   filter_mset (\<lambda>t. matchesSearch env (searchTerm v) t \<and> matchesQuality (qualityFilter v) t) (mset history)"
  by (simp add: filteredData_def mset_array_sort)

text \<open>
  C8, as the code has it: with the quality filter set to "poor" and no search term, the
  view holds exactly the records of the store whose quality is poor. A search term alone
  keeps the records whose quality label contains the lower-cased term or whose formatted
  date contains the term as typed (an empty term keeps every record). With both set, the
  view holds the records that pass both, which is the intersection of the two views.
\<close>

theorem filters_compose:
  "mset (filteredData env (v\<lparr>searchTerm := [], qualityFilter := ''poor''\<rparr>) history) =
     filter_mset (\<lambda>t. quality t = Poor) (mset history)
   \<and> mset (filteredData env (v\<lparr>searchTerm := s, qualityFilter := ''all''\<rparr>) history) =
     filter_mset (\<lambda>t. s = []
                      \<or> (\<exists>p r. quality_label (quality t) = p @ toLowerCase s @ r)
                      \<or> (\<exists>p r. toLocaleDateString env (timestamp t) = p @ s @ r)) (mset history)
   \<and> mset (filteredData env (v\<lparr>searchTerm := s, qualityFilter := q\<rparr>) history) =
     filter_mset (\<lambda>t. matchesSearch env s t \<and> matchesQuality q t) (mset history)
   \<and> set (filteredData env (v\<lparr>searchTerm := s, qualityFilter := q\<rparr>) history) =
     set (filteredData env (v\<lparr>searchTerm := s, qualityFilter := ''all''\<rparr>) history)
     \<inter> set (filteredData env (v\<lparr>searchTerm := [], qualityFilter := q\<rparr>) history)"
proof (intro conjI)
  show "mset (filteredData env (v\<lparr>searchTerm := [], qualityFilter := ''poor''\<rparr>) history) =
     filter_mset (\<lambda>t. quality t = Poor) (mset history)"
    by (simp add: mset_filteredData matchesQuality_poor matchesSearch_def)
next
  show "mset (filteredData env (v\<lparr>searchTerm := s, qualityFilter := ''all''\<rparr>) history) =
     filter_mset (\<lambda>t. s = []
                      \<or> (\<exists>p r. quality_label (quality t) = p @ toLowerCase s @ r)
                      \<or> (\<exists>p r. toLocaleDateString env (timestamp t) = p @ s @ r)) (mset history)"
    by (simp add: mset_filteredData matchesQuality_def matchesSearch_def label_lower js_includes_iff)
next
  show "mset (filteredData env (v\<lparr>searchTerm := s, qualityFilter := q\<rparr>) history) =
     filter_mset (\<lambda>t. matchesSearch env s t \<and> matchesQuality q t) (mset history)"
    by (simp add: mset_filteredData)
next
  show "set (filteredData env (v\<lparr>searchTerm := s, qualityFilter := q\<rparr>) history) =
     set (filteredData env (v\<lparr>searchTerm := s, qualityFilter := ''all''\<rparr>) history)
     \<inter> set (filteredData env (v\<lparr>searchTerm := [], qualityFilter := q\<rparr>) history)"
    by (auto simp: filteredData_def set_array_sort matchesQuality_def matchesSearch_def)
qed

text \<open>
  C8 as stated fails where it calls the match against the formatted date case-insensitive:
  in a browser that prints the date as \<open>R8/11/2\<close>, the term \<open>r8\<close> matches the date of
  a poor record when case is ignored, and the view with the quality filter "poor" is empty.
\<close>

theorem date_search_counterexample:
  "spec_matchesSearch ja_era_env ''r8'' test_b
   \<and> matchesQuality ''poor'' test_b
   \<and> filteredData ja_era_env (initial_view\<lparr>searchTerm := ''r8'', qualityFilter := ''poor''\<rparr>) [test_b] = []"
  by code_simp

section \<open>Chart aggregation\<close>




















section \<open>CSV export\<close>

lemma digit_char_digit: "d < 10 \<Longrightarrow> digit_char d \<in> set ''0123456789''"
proof -
  assume "d < 10"
  then have "d \<in> {0, 1, 2, 3, 4, 5, 6, 7, 8, 9}" by auto
  then show ?thesis by (auto simp: digit_char_def)
qed

lemma digit_value_digit_char: "d < 10 \<Longrightarrow> digit_value (digit_char d) = d"
proof -
  assume "d < 10"
  then have "d \<in> {0, 1, 2, 3, 4, 5, 6, 7, 8, 9}" by auto
  then show ?thesis by (auto simp: digit_char_def digit_value_def)
qed

lemma show_nat_digits: "set (show_nat n) \<subseteq> set ''0123456789''"
proof (induction n rule: show_nat.induct)
  case (1 n)
  show ?case
  proof (cases "n < 10")
    case True
    then show ?thesis
      using digit_char_digit[of n] by (subst show_nat.simps) simp
  next
    case False
    have "n mod 10 < 10" by simp
    then have "digit_char (n mod 10) \<in> set ''0123456789''" by (rule digit_char_digit)
    with False 1 show ?thesis
      by (subst show_nat.simps) simp
  qed
qed

lemma show_nat_length: "n < 10 ^ k \<Longrightarrow> 0 < k \<Longrightarrow> length (show_nat n) \<le> k"
proof (induction n arbitrary: k rule: show_nat.induct)
  case (1 n)
  show ?case
  proof (cases "n < 10")
    case True
    with 1(3) show ?thesis by (subst show_nat.simps) simp
  next
    case False
    from 1(3) obtain j where k: "k = Suc j" by (cases k) auto
    with False 1(2) have "0 < j" by (cases j) auto
    moreover from 1(2) k have "n div 10 < 10 ^ j"
      by (simp add: less_mult_imp_div_less mult.commute)
    ultimately have "length (show_nat (n div 10)) \<le> j"
      using 1(1)[OF False] by blast
    with False k show ?thesis by (subst show_nat.simps) simp
  qed
qed

lemma show_nat_nonempty: "show_nat n \<noteq> []"
  by (subst show_nat.simps) simp

lemma decimal_value_snoc: "decimal_value (s @ [c]) = 10 * decimal_value s + digit_value c"
  by (simp add: decimal_value_def)

lemma decimal_value_show_nat: "decimal_value (show_nat n) = n"
proof (induction n rule: show_nat.induct)
  case (1 n)
  show ?case
  proof (cases "n < 10")
    case True
    then show ?thesis
      by (subst show_nat.simps) (simp add: decimal_value_def digit_value_digit_char)
  next
    case False
    have "digit_value (digit_char (n mod 10)) = n mod 10"
      by (rule digit_value_digit_char) simp
    with False 1 show ?thesis
      by (subst show_nat.simps) (simp add: decimal_value_snoc)
  qed
qed

lemma decimal_value_append:
  "decimal_value (a @ b) = decimal_value a * 10 ^ length b + decimal_value b"
proof (induction b rule: rev_induct)
  case Nil
  show ?case by (simp add: decimal_value_def)
next
  case (snoc c b)
  have "decimal_value (a @ b @ [c]) = 10 * decimal_value (a @ b) + digit_value c"
    using decimal_value_snoc[of "a @ b" c] by simp
  with snoc show ?case
    by (simp add: decimal_value_snoc algebra_simps)
qed

lemma decimal_value_zeros: "decimal_value (replicate k (CHR ''0'')) = 0"
  by (induction k) (simp_all add: decimal_value_def digit_value_def)

lemma toFixed_decimals:
  assumes "0 < f"
  shows "\<exists>ip fp. toFixed f x = (if x < 0 then ''-'' else []) @ ip @ ''.'' @ fp
           \<and> ip \<noteq> [] \<and> length fp = f \<and> set (ip @ fp) \<subseteq> set ''0123456789''
           \<and> decimal_value (ip @ fp) = nat \<lfloor>\<bar>x\<bar> * 10 ^ f + 1 / 2\<rfloor>"
proof -
  define n where "n = nat \<lfloor>\<bar>x\<bar> * 10 ^ f + 1 / 2\<rfloor>"
  define sp where "sp = show_nat (n mod 10 ^ f)"
  define fp where "fp = replicate (f - length sp) (CHR ''0'') @ sp"
  define ip where "ip = show_nat (n div 10 ^ f)"
  have "n mod 10 ^ f < 10 ^ f" by simp
  then have "length sp \<le> f"
    unfolding sp_def using assms by (rule show_nat_length)
  then have len: "length fp = f" by (simp add: fp_def)
  have dig: "set (ip @ fp) \<subseteq> set ''0123456789''"
    using show_nat_digits[of "n mod 10 ^ f"] show_nat_digits[of "n div 10 ^ f"]
    by (auto simp: fp_def ip_def sp_def)
  have ne: "ip \<noteq> []" by (simp add: ip_def show_nat_nonempty)
  have "decimal_value fp = decimal_value sp"
    unfolding fp_def by (simp add: decimal_value_append decimal_value_zeros)
  then have "decimal_value (ip @ fp) = (n div 10 ^ f) * 10 ^ f + n mod 10 ^ f"
    by (simp add: decimal_value_append len ip_def sp_def decimal_value_show_nat)
  then have val: "decimal_value (ip @ fp) = n" by (simp only: div_mult_mod_eq)
  have "toFixed f x = (if x < 0 then ''-'' else []) @ ip @ ''.'' @ fp"
    using assms by (simp add: toFixed_def Let_def n_def fp_def ip_def sp_def)
  with ne len dig val show ?thesis unfolding n_def by blast
qed

lemma toFixed_45: "toFixed 1 45 = ''45.0''"
  by code_simp

lemma join_rows: "join sep (x # xs) = x @ concat (map (\<lambda>y. sep @ y) xs)"
  by (induction xs arbitrary: x) simp_all

text \<open>
  The export of a view whose numbers are finite: the table is the fixed header row
  followed by one row per record, in the order of the view, and every row has exactly 8
  cells. The file is the header line followed, for each record, by a line feed and the
  record's line; a line is its 8 cells, each between double quotes, with commas between
  them. Download and upload are printed as a sign, digits, a point and exactly one
  digit, the packet loss with exactly two, and the digits read as a number are the
  magnitude times 10 (or 100) rounded to the nearest integer; 45 is printed \<open>45.0\<close>.
\<close>

lemma csv_export_shape:
  "csv_table env (filteredData env v history) =
     csv_headers # map (csv_row env) (filteredData env v history)
   \<and> map length (csv_table env (filteredData env v history)) =
       replicate (1 + length (filteredData env v history)) 8
   \<and> blob_content (exportToCSV env v history) =
       join '','' (map quote_cell csv_headers)
       @ concat (map (\<lambda>t. [CHR 0x0A] @ join '','' (map quote_cell (csv_row env t)))
                     (filteredData env v history))
   \<and> join '','' (map quote_cell [c0, c1, c2, c3, c4, c5, c6, c7]) =
       quote_cell c0 @ '','' @ quote_cell c1 @ '','' @ quote_cell c2 @ '','' @ quote_cell c3 @ '','' @
       quote_cell c4 @ '','' @ quote_cell c5 @ '','' @ quote_cell c6 @ '','' @ quote_cell c7
   \<and> quote_cell cell = [CHR 0x22] @ cell @ [CHR 0x22]
   \<and> csv_row env t =
       [toLocaleDateString env (timestamp t), toLocaleTimeString env (timestamp t),
        toFixed 1 (download t), toFixed 1 (upload t), int_toString (ping t),
        int_toString (jitter t), toFixed 2 (packetLoss t), quality_label (quality t)]
   \<and> toFixed 1 45 = ''45.0''
   \<and> (\<exists>ip fp. toFixed 1 x = (if x < 0 then ''-'' else []) @ ip @ ''.'' @ fp
         \<and> ip \<noteq> [] \<and> length fp = 1 \<and> set (ip @ fp) \<subseteq> set ''0123456789''
         \<and> decimal_value (ip @ fp) = nat \<lfloor>\<bar>x\<bar> * 10 ^ 1 + 1 / 2\<rfloor>)
   \<and> (\<exists>ip fp. toFixed 2 x = (if x < 0 then ''-'' else []) @ ip @ ''.'' @ fp
         \<and> ip \<noteq> [] \<and> length fp = 2 \<and> set (ip @ fp) \<subseteq> set ''0123456789''
         \<and> decimal_value (ip @ fp) = nat \<lfloor>\<bar>x\<bar> * 10 ^ 2 + 1 / 2\<rfloor>)"
proof (intro conjI)
  show "csv_table env (filteredData env v history) =
     csv_headers # map (csv_row env) (filteredData env v history)"
    by (simp add: csv_table_def)
next
  have "map length (map (csv_row env) fd) = replicate (length fd) 8" for fd
    by (induction fd) (simp_all add: csv_row_def csv_cells_def)
  then show "map length (csv_table env (filteredData env v history)) =
       replicate (1 + length (filteredData env v history)) 8"
    by (simp add: csv_table_def csv_headers_def)
next
  show "blob_content (exportToCSV env v history) =
       join '','' (map quote_cell csv_headers)
       @ concat (map (\<lambda>t. [CHR 0x0A] @ join '','' (map quote_cell (csv_row env t)))
                     (filteredData env v history))"
    by (simp add: exportToCSV_def csv_export_def csvContent_def csv_table_def join_rows comp_def
        del: join.simps)
next
  show "join '','' (map quote_cell [c0, c1, c2, c3, c4, c5, c6, c7]) =
       quote_cell c0 @ '','' @ quote_cell c1 @ '','' @ quote_cell c2 @ '','' @ quote_cell c3 @ '','' @
       quote_cell c4 @ '','' @ quote_cell c5 @ '','' @ quote_cell c6 @ '','' @ quote_cell c7"
    by simp
next
  show "quote_cell cell = [CHR 0x22] @ cell @ [CHR 0x22]"
    by (simp add: quote_cell_def)
next
  show "csv_row env t =
       [toLocaleDateString env (timestamp t), toLocaleTimeString env (timestamp t),
        toFixed 1 (download t), toFixed 1 (upload t), int_toString (ping t),
        int_toString (jitter t), toFixed 2 (packetLoss t), quality_label (quality t)]"
    by (simp add: csv_row_def csv_cells_def)
next
  show "toFixed 1 45 = ''45.0''"
    by (rule toFixed_45)
next
  show "\<exists>ip fp. toFixed 1 x = (if x < 0 then ''-'' else []) @ ip @ ''.'' @ fp
         \<and> ip \<noteq> [] \<and> length fp = 1 \<and> set (ip @ fp) \<subseteq> set ''0123456789''
         \<and> decimal_value (ip @ fp) = nat \<lfloor>\<bar>x\<bar> * 10 ^ 1 + 1 / 2\<rfloor>"
    by (rule toFixed_decimals) simp
next
  show "\<exists>ip fp. toFixed 2 x = (if x < 0 then ''-'' else []) @ ip @ ''.'' @ fp
         \<and> ip \<noteq> [] \<and> length fp = 2 \<and> set (ip @ fp) \<subseteq> set ''0123456789''
         \<and> decimal_value (ip @ fp) = nat \<lfloor>\<bar>x\<bar> * 10 ^ 2 + 1 / 2\<rfloor>"
    by (rule toFixed_decimals) simp
qed

text \<open>The file exported from a store of two records, in the default view (newest first).\<close>

lemma csv_two_records:
  "blob_content (exportToCSV en_US_env initial_view [test_a, test_b]) =
     [CHR 0x22] @ ''Date'' @ [CHR 0x22] @ '','' @
     [CHR 0x22] @ ''Time'' @ [CHR 0x22] @ '','' @
     [CHR 0x22] @ ''Download (Mbps)'' @ [CHR 0x22] @ '','' @
     [CHR 0x22] @ ''Upload (Mbps)'' @ [CHR 0x22] @ '','' @
     [CHR 0x22] @ ''Ping (ms)'' @ [CHR 0x22] @ '','' @
     [CHR 0x22] @ ''Jitter (ms)'' @ [CHR 0x22] @ '','' @
     [CHR 0x22] @ ''Packet Loss (%)'' @ [CHR 0x22] @ '','' @
     [CHR 0x22] @ ''Quality'' @ [CHR 0x22] @ [CHR 0x0A] @
     [CHR 0x22] @ ''11/2/2026'' @ [CHR 0x22] @ '','' @
     [CHR 0x22] @ ''12:38:00 PM'' @ [CHR 0x22] @ '','' @
     [CHR 0x22] @ ''45.0'' @ [CHR 0x22] @ '','' @
     [CHR 0x22] @ ''10.0'' @ [CHR 0x22] @ '','' @
     [CHR 0x22] @ ''130'' @ [CHR 0x22] @ '','' @
     [CHR 0x22] @ ''6'' @ [CHR 0x22] @ '','' @
     [CHR 0x22] @ ''1.23'' @ [CHR 0x22] @ '','' @
     [CHR 0x22] @ ''poor'' @ [CHR 0x22] @ [CHR 0x0A] @
     [CHR 0x22] @ ''11/2/2026'' @ [CHR 0x22] @ '','' @
     [CHR 0x22] @ ''12:38:00 PM'' @ [CHR 0x22] @ '','' @
     [CHR 0x22] @ ''45.0'' @ [CHR 0x22] @ '','' @
     [CHR 0x22] @ ''12.3'' @ [CHR 0x22] @ '','' @
     [CHR 0x22] @ ''30'' @ [CHR 0x22] @ '','' @
     [CHR 0x22] @ ''3'' @ [CHR 0x22] @ '','' @
     [CHR 0x22] @ ''0.50'' @ [CHR 0x22] @ '','' @
     [CHR 0x22] @ ''fair'' @ [CHR 0x22]"
  by code_simp

text \<open>
  C7, evaluated on the code: a clock too coarse to see the timer of a download sample
  gives the same reading before and after it. The elapsed time is 0, the speed of the
  sample 8 divided by 0, and the measured download is \<open>Infinity\<close>. The export builds
  the row of that record by \<open>toFixed(1)\<close> on its download: the cell reads
  \<open>Infinity\<close>, which has no decimal place.
\<close>

theorem stalled_download_prints_infinity:
  "download_sample 1 (stalled_xfer 0) = PosInfinity
   \<and> measureDownloadSpeed stalled_xfer = PosInfinity
   \<and> csv_cells ''11/2/2026'' ''12:38:00 PM'' (measureDownloadSpeed stalled_xfer) (Num 5) 15 0
               (Num 1) ''excellent''
     = [''11/2/2026'', ''12:38:00 PM'', ''Infinity'', ''5.0'', ''15'', ''0'', ''1.00'', ''excellent'']"
  by code_simp

section \<open>The history view does not change the store\<close>

lemma map_sort_insert:
  "map f (sort_insert (\<lambda>x y. cmp (f x) (f y)) x ys) = sort_insert cmp (f x) (map f ys)"
  by (induction ys) simp_all

lemma map_array_sort:
  "map f (array_sort (\<lambda>x y. cmp (f x) (f y)) xs) = array_sort cmp (map f xs)"
  unfolding array_sort_def
  by (induction xs) (simp_all add: map_sort_insert)

lemma filteredData_heap_result:
  assumes "filteredData_heap env v a h = (h', fd)"
  shows "fd = next_addr h"
    and "next_addr h' = next_addr h + 1"
    and "objects h' = objects h"
    and "b \<noteq> next_addr h \<Longrightarrow> arrays h' b = arrays h b"
    and "a < next_addr h \<Longrightarrow> heap_read fd h' = filteredData env v (heap_read a h)"
proof -
  let ?p = "\<lambda>t. matchesSearch env (searchTerm v) t \<and> matchesQuality (qualityFilter v) t"
  let ?c = "compare_tests (sortField v) (sortOrder v)"
  let ?xs = "filter (\<lambda>r. ?p (objects h r)) (arrays h a)"
  have h': "h' = h\<lparr>arrays := (arrays h)(next_addr h := array_sort (\<lambda>x y. ?c (objects h x) (objects h y)) ?xs),
                   next_addr := next_addr h + 1\<rparr>"
    and fd: "fd = next_addr h"
    using assms
    by (auto simp add: filteredData_heap_def heap_filter_def alloc_array_def heap_sort_def)
  show "fd = next_addr h" by (rule fd)
  show "next_addr h' = next_addr h + 1" by (simp add: h')
  show "objects h' = objects h" by (simp add: h')
  show "b \<noteq> next_addr h \<Longrightarrow> arrays h' b = arrays h b" by (simp add: h')
  have "map (objects h) (array_sort (\<lambda>x y. ?c (objects h x) (objects h y)) ?xs)
        = array_sort ?c (map (objects h) ?xs)"
    by (rule map_array_sort)
  also have "map (objects h) ?xs = filter ?p (map (objects h) (arrays h a))"
    by (simp add: filter_map comp_def)
  finally show "heap_read fd h' = filteredData env v (heap_read a h)"
    by (simp add: heap_read_def filteredData_def h' fd)
qed

lemma render_kept:
  assumes "store_kept env a h c"
  shows "store_kept env a h (render env a c)"
    and "rendered (render env a c) \<noteq> a"
    and "heap_read (rendered (render env a c)) (hp (render env a c)) =
         filteredData env (hv (render env a c)) (heap_read a h)"
proof -
  obtain h' fd where r: "filteredData_heap env (hv c) a (hp c) = (h', fd)"
    by (cases "filteredData_heap env (hv c) a (hp c)")
  have c': "render env a c = c\<lparr>hp := h', rendered := fd\<rparr>"
    by (simp add: render_def r)
  from assms have lt: "a < next_addr (hp c)" and ar: "arrays (hp c) a = arrays h a"
    and ob: "objects (hp c) = objects h"
    by (simp_all add: store_kept_def)
  from lt have ne: "a \<noteq> next_addr (hp c)" by simp
  show "store_kept env a h (render env a c)"
    using filteredData_heap_result(2,3)[OF r] filteredData_heap_result(4)[OF r ne] lt ar ob
    by (simp add: store_kept_def c')
  show "rendered (render env a c) \<noteq> a"
    using filteredData_heap_result(1)[OF r] ne by (simp add: c')
  have "heap_read a (hp c) = heap_read a h"
    by (simp add: heap_read_def ar ob)
  with filteredData_heap_result(5)[OF r lt]
  show "heap_read (rendered (render env a c)) (hp (render env a c)) =
         filteredData env (hv (render env a c)) (heap_read a h)"
    by (simp add: c')
qed

lemma handler_kept: "store_kept env a h c \<Longrightarrow> store_kept env a h (handler env op c)"
  by (cases op) (simp_all add: store_kept_def)

lemma apply_ops_kept:
  assumes "store_kept env a h c"
    and "rendered c \<noteq> a"
    and "heap_read (rendered c) (hp c) = filteredData env (hv c) (heap_read a h)"
  shows "store_kept env a h (apply_ops env a ops c)
         \<and> rendered (apply_ops env a ops c) \<noteq> a
         \<and> heap_read (rendered (apply_ops env a ops c)) (hp (apply_ops env a ops c)) =
           filteredData env (hv (apply_ops env a ops c)) (heap_read a h)"
  using assms unfolding apply_ops_def
proof (induction ops arbitrary: c)
  case Nil
  then show ?case by simp
next
  case (Cons op ops)
  have k: "store_kept env a h (handler env op c)"
    using Cons.prems(1) by (rule handler_kept)
  show ?case
    using Cons.IH[OF render_kept[OF k]] by simp
qed

text \<open>
  C10: let the store be the array at an allocated address. After the view is mounted
  and any sequence of its handlers has run (typing a search term, choosing a quality,
  clicking sort keys, both exports, the clear button), each followed by a render, the
  store's array holds the same references in the same order, no record has changed, the
  view's list is an array other than the store's, and it holds the filtered and sorted
  records of the unchanged store.
\<close>

theorem history_view_frame:
  assumes "testHistory_addr < next_addr h"
  shows "arrays (hp (apply_ops env testHistory_addr ops (mount env testHistory_addr h))) testHistory_addr
           = arrays h testHistory_addr
       \<and> objects (hp (apply_ops env testHistory_addr ops (mount env testHistory_addr h))) = objects h
       \<and> heap_read testHistory_addr (hp (apply_ops env testHistory_addr ops (mount env testHistory_addr h)))
           = heap_read testHistory_addr h
       \<and> rendered (apply_ops env testHistory_addr ops (mount env testHistory_addr h)) \<noteq> testHistory_addr
       \<and> heap_read (rendered (apply_ops env testHistory_addr ops (mount env testHistory_addr h)))
                    (hp (apply_ops env testHistory_addr ops (mount env testHistory_addr h)))
           = filteredData env (hv (apply_ops env testHistory_addr ops (mount env testHistory_addr h)))
               (heap_read testHistory_addr h)"
proof -
  let ?c0 = "\<lparr>hv = initial_view, hp = h, rendered = 0, downloads = []\<rparr>"
  have k0: "store_kept env testHistory_addr h ?c0"
    using assms by (simp add: store_kept_def)
  have m: "mount env testHistory_addr h = render env testHistory_addr ?c0"
    by (simp add: mount_def)
  let ?c = "apply_ops env testHistory_addr ops (mount env testHistory_addr h)"
  from apply_ops_kept[OF render_kept[OF k0], of ops]
  have k: "store_kept env testHistory_addr h ?c"
    and r: "rendered ?c \<noteq> testHistory_addr"
    and f: "heap_read (rendered ?c) (hp ?c) = filteredData env (hv ?c) (heap_read testHistory_addr h)"
    unfolding m by blast+
  from k have ar: "arrays (hp ?c) testHistory_addr = arrays h testHistory_addr"
    and ob: "objects (hp ?c) = objects h"
    by (simp_all add: store_kept_def)
  have "heap_read testHistory_addr (hp ?c) = heap_read testHistory_addr h"
    by (simp add: heap_read_def ar ob)
  with ar ob r f show ?thesis by blast
qed

theorem history_view_frame_witness:
  "(0::nat) < next_addr example_heap
   \<and> heap_read 0 (hp (apply_ops en_US_env 0 [ClickSort Download, ClickSort Download, ClickExportCSV]
                        (mount en_US_env 0 example_heap)))
     = [test_a, test_b]
   \<and> rendered (apply_ops en_US_env 0 [ClickSort Download, ClickSort Download, ClickExportCSV]
                  (mount en_US_env 0 example_heap)) \<noteq> 0"
proof -
  have lt: "(0::nat) < next_addr example_heap"
    by (simp add: example_heap_def)
  have "heap_read 0 example_heap = [test_a, test_b]"
    by (simp add: heap_read_def example_heap_def)
  with lt history_view_frame[OF lt, of en_US_env "[ClickSort Download, ClickSort Download, ClickExportCSV]"]
  show ?thesis by simp
qed

section \<open>The sequencer\<close>

lemma stopTest_keeps_tasks: "tasks (stopTest s) = tasks s"
  by (simp add: stopTest_def set_parent_def)

lemma resume_keeps_closure:
  "resume t x s = Some (s', Some t') \<Longrightarrow> closure_currentTest t' = closure_currentTest t"
  by (cases x) (auto split: if_splits option.splits prod.splits simp: Let_def)

lemma resume_upload:
  "resume t (UploadSettled rnd) s = Some (s', Some t') \<Longrightarrow>
   p_upload (results t') = as_finite (measureUploadSpeed (closure_currentTest t) rnd)"
  by (auto split: if_splits option.splits simp: Let_def)

text \<open>
  C1, evaluated on the code: the run is started, the ping phase ends and the download
  phase begins; then \<open>Stop Test\<close> is clicked. Right after the click the phase is idle,
  the progress 0, the partial results are gone and the store is empty. But the run in
  flight is not cancelled: when its promises and timers settle it sets the phase and
  the progress again, and when its last timer fires it appends its record to the store.
\<close>

theorem stop_does_not_cancel:
  "map_option observe (run_events (take 3 stopped_run) initial_speedtest) =
     Some (DownloadPhase, 25, empty_data\<lparr>p_ping := Some 15, p_jitter := Some 0\<rparr>, True, [])
   \<and> map_option observe (run_events (take 4 stopped_run) initial_speedtest) =
     Some (Idle, 0, empty_data, False, [])
   \<and> map_option (length \<circ> tasks) (run_events (take 4 stopped_run) initial_speedtest) = Some 1
   \<and> map_option observe (run_events (take 5 stopped_run) initial_speedtest) =
     Some (UploadPhase, 65,
           empty_data\<lparr>p_ping := Some 15, p_jitter := Some 0, p_download := Some 120\<rparr>, False, [])
   \<and> map_option observe (run_events stopped_run initial_speedtest) =
     Some (Idle, 100,
           \<lparr>p_download = Some 120, p_upload = Some 5, p_ping = Some 15, p_jitter = Some 0,
            p_packetLoss = Some 1, p_timestamp = Some 1000, p_quality = Some Excellent\<rparr>,
           False,
           [\<lparr>download = 120, upload = 5, ping = 15, jitter = 0, packetLoss = 1,
             timestamp = 1000, quality = Excellent\<rparr>])"
  by code_simp

text \<open>
  C2, evaluated on the code: on the first run of a fresh component the download phase
  measures 120 Mbps and the random draw of the upload phase is 0, a ratio of 0.1. The
  record has download 120 and upload 5, which is 0.1 of the fallback 50 and not 0.1 of
  the measured 120: \<open>measureUploadSpeed\<close> reads the \<open>currentTest\<close> of the render its
  closure comes from, which the run does not change.
\<close>

theorem upload_from_stale_closure:
  "map_option (map (\<lambda>r. (download r, upload r)) \<circ> testHistory \<circ> parent)
       (run_events completed_run initial_speedtest) = Some [(120, 5)]
   \<and> measureDownloadSpeed fast_xfer = Num 120
   \<and> measureUploadSpeed empty_data 0 = Num 5
   \<and> of_int (js_round ((120 * (1 / 10 + 0 * (4 / 10))) * 10)) / 10 = (12::rat)"
  by code_simp

end
